theory Spec2Isabelle
  imports Main
begin

section \<open>The aria2 client of \<^verbatim>\<open>client.go\<close>: data model\<close>

text \<open>
  The development embeds the parts of \<^verbatim>\<open>client.go\<close> that carry state or decode data:
  the listener table (\<^verbatim>\<open>Subscribe\<close>, \<^verbatim>\<open>onEvent\<close>), the waiter table
  (\<^verbatim>\<open>WaitForDownload\<close> and the three terminal notification handlers),
  \<^verbatim>\<open>DownloadWithContext\<close> with \<^verbatim>\<open>Delete\<close>, \<^verbatim>\<open>AddMetalinkAtPosition\<close> and
  \<^verbatim>\<open>MultiCall\<close>.

  Conventions.
  \<^item> A Go value that may be \<^verbatim>\<open>nil\<close> (an \<^verbatim>\<open>error\<close>, a pointer, a func value, a byte
    slice) is an \<open>option\<close>, with \<open>None\<close> for \<^verbatim>\<open>nil\<close>.
  \<^item> The reply of a remote call is not computed by the client: every function that
    issues \<^verbatim>\<open>rpcClient.Call\<close> takes the reply and the error of that call as an argument.
  \<^item> A goroutine started with \<^verbatim>\<open>go\<close> is recorded, not run: the function returns the list
    of calls it has spawned.
  \<^item> A channel operation that would block is a value (\<open>Blocked\<close>, or \<open>None\<close> for a
    receive), so that "the call returns" is a statement that can be proved.
\<close>

subsection \<open>Errors\<close>

text \<open>\<^verbatim>\<open>errors.New(text)\<close>: an error value that carries its message.\<close>

datatype error = errors_New string

subsection \<open>The client\<close>

text \<open>
  \<^verbatim>\<open>type Client struct { ...; listeners map[string][]EventListener;
  activeGIDs map[string]chan error }\<close>.
  An \<^verbatim>\<open>EventListener\<close> is a func value: \<open>Some l\<close> is the listener \<open>l\<close>, \<open>None\<close> the nil
  func. A \<^verbatim>\<open>chan error\<close> is a reference into the store \<open>chans\<close>, which holds the buffered
  values of every channel (oldest first); \<open>next_chan\<close> is the next unused reference. The
  fields \<^verbatim>\<open>ws\<close>, \<^verbatim>\<open>rpcClient\<close>, \<^verbatim>\<open>closed\<close> and \<^verbatim>\<open>authToken\<close> play no part in the
  functions below and are left out.
\<close>

type_synonym chan = nat

record 'l Client =
  listeners :: "string \<rightharpoonup> 'l option list"
  activeGIDs :: "string \<rightharpoonup> chan"
  chans :: "chan \<Rightarrow> error option list"
  next_chan :: chan

text \<open>
  Modelled from the spec: the declaration of \<^verbatim>\<open>DownloadEvent\<close> is not in
  \<^verbatim>\<open>client.go\<close>. The handlers read its field \<^verbatim>\<open>GID\<close> only (the handle of the download);
  any further field lives in the extension of the record.
\<close>

record DownloadEvent =
  GID :: string

text \<open>\<^verbatim>\<open>NewClient\<close>: both tables are made empty.\<close>

definition NewClient :: "'l Client" where
  "NewClient =
     \<lparr>listeners = Map.empty, activeGIDs = Map.empty, chans = (\<lambda>_. []), next_chan = 0\<rparr>"

subsection \<open>Listeners\<close>

text \<open>
  \<^verbatim>\<open>
  func (c *Client) Subscribe(name string, listener EventListener) {
      listeners, ok := c.listeners[name]
      if !ok {
          listeners = make([]EventListener, 1)
          c.listeners[name] = listeners
      }
      c.listeners[name] = append(listeners, listener)
  }
  \<close>
  \<^verbatim>\<open>make([]EventListener, 1)\<close> is a slice of length one holding the zero value of the
  element type, the nil func.
\<close>

definition Subscribe :: "'l Client \<Rightarrow> string \<Rightarrow> 'l option \<Rightarrow> 'l Client" where
  "Subscribe c name listener =
     (case listeners c name of
        None \<Rightarrow>
          (let ls = replicate 1 None;
               c1 = c\<lparr>listeners := (listeners c)(name \<mapsto> ls)\<rparr>
           in c1\<lparr>listeners := (listeners c1)(name \<mapsto> ls @ [listener])\<rparr>)
      | Some ls \<Rightarrow> c\<lparr>listeners := (listeners c)(name \<mapsto> ls @ [listener])\<rparr>)"

text \<open>
  \<^verbatim>\<open>
  func (c *Client) onEvent(name string, event *DownloadEvent) {
      listeners, ok := c.listeners[name]
      if !ok { return }
      for _, listener := range listeners { go listener(event) }
  }
  \<close>
  The result is the list of goroutines started, in the order of the loop: each is a func
  value applied to the event. A goroutine whose func value is nil dereferences nil when it
  runs, which ends the whole program.
\<close>

definition onEvent :: "'l Client \<Rightarrow> string \<Rightarrow> 'e \<Rightarrow> ('l option \<times> 'e) list" where
  "onEvent c name event =
     (case listeners c name of
        None \<Rightarrow> []
      | Some ls \<Rightarrow> map (\<lambda>listener. (listener, event)) ls)"

text \<open>Whether one of the spawned goroutines calls the nil func.\<close>

fun calls_nil :: "('l option \<times> 'e) list \<Rightarrow> bool" where
  "calls_nil [] = False"
| "calls_nil ((None, e) # gs) = True"
| "calls_nil ((Some l, e) # gs) = calls_nil gs"

text \<open>\<open>n\<close> calls \<^verbatim>\<open>Subscribe(k, l1)\<close>, ..., \<^verbatim>\<open>Subscribe(k, ln)\<close> in a row.\<close>

fun Subscribe_all :: "'l Client \<Rightarrow> string \<Rightarrow> 'l option list \<Rightarrow> 'l Client" where
  "Subscribe_all c name [] = c"
| "Subscribe_all c name (l # ls) = Subscribe_all (Subscribe c name l) name ls"

subsection \<open>Channels of capacity one\<close>

text \<open>
  Every channel of the waiter table is made by \<^verbatim>\<open>make(chan error, 1)\<close>. A send puts the
  value into the buffer when there is room and blocks otherwise; a receive takes the
  oldest buffered value and blocks when there is none. \<open>None\<close> is "blocks".
\<close>

definition chan_send :: "'l Client \<Rightarrow> chan \<Rightarrow> error option \<Rightarrow> 'l Client option" where
  "chan_send c ch v =
     (if length (chans c ch) < 1
      then Some (c\<lparr>chans := (chans c)(ch := chans c ch @ [v])\<rparr>)
      else None)"

definition chan_recv :: "'l Client \<Rightarrow> chan \<Rightarrow> ('l Client \<times> error option) option" where
  "chan_recv c ch =
     (case chans c ch of
        [] \<Rightarrow> None
      | v # vs \<Rightarrow> Some (c\<lparr>chans := (chans c)(ch := vs)\<rparr>, v))"

subsection \<open>Terminal notifications\<close>

text \<open>What a handler does: it returns its result, or it blocks on a channel.\<close>

datatype 'r outcome = Returned 'r | Blocked

text \<open>
  The state after a handler, the goroutines it has started, and how it ended.
\<close>

record ('l, 'e) handled =
  client_after :: "'l Client"
  spawned :: "('l option \<times> 'e) list"
  ended :: "error option outcome"

text \<open>
  \<^verbatim>\<open>
  func (c *Client) onDownloadStop(_ *rpc2.Client, event *DownloadEvent, _ *interface{}) error {
      c.onEvent("downloadStop", event)
      channel, ok := c.activeGIDs[event.GID]
      if ok { channel <- errors.New("download stopped") }
      return nil
  }
  \<close>
\<close>

definition onDownloadStop ::
  "'l Client \<Rightarrow> 'a DownloadEvent_scheme \<Rightarrow> ('l, 'a DownloadEvent_scheme) handled" where
  "onDownloadStop c event =
     (let gs = onEvent c ''downloadStop'' event in
      case activeGIDs c (GID event) of
        Some channel \<Rightarrow>
          (case chan_send c channel (Some (errors_New ''download stopped'')) of
             Some c' \<Rightarrow> \<lparr>client_after = c', spawned = gs, ended = Returned None\<rparr>
           | None \<Rightarrow> \<lparr>client_after = c, spawned = gs, ended = Blocked\<rparr>)
      | None \<Rightarrow> \<lparr>client_after = c, spawned = gs, ended = Returned None\<rparr>)"

text \<open>
  \<^verbatim>\<open>
  func (c *Client) onDownloadComplete(...) error {
      c.onEvent("downloadComplete", event)
      channel, ok := c.activeGIDs[event.GID]
      if ok { channel <- nil }
      return nil
  }
  \<close>
\<close>

definition onDownloadComplete ::
  "'l Client \<Rightarrow> 'a DownloadEvent_scheme \<Rightarrow> ('l, 'a DownloadEvent_scheme) handled" where
  "onDownloadComplete c event =
     (let gs = onEvent c ''downloadComplete'' event in
      case activeGIDs c (GID event) of
        Some channel \<Rightarrow>
          (case chan_send c channel None of
             Some c' \<Rightarrow> \<lparr>client_after = c', spawned = gs, ended = Returned None\<rparr>
           | None \<Rightarrow> \<lparr>client_after = c, spawned = gs, ended = Blocked\<rparr>)
      | None \<Rightarrow> \<lparr>client_after = c, spawned = gs, ended = Returned None\<rparr>)"

text \<open>
  \<^verbatim>\<open>
  func (c *Client) onDownloadError(...) error {
      c.onEvent("downloadError", event)
      channel, ok := c.activeGIDs[event.GID]
      if ok { channel <- errors.New("download encountered error") }
      return nil
  }
  \<close>
\<close>

definition onDownloadError ::
  "'l Client \<Rightarrow> 'a DownloadEvent_scheme \<Rightarrow> ('l, 'a DownloadEvent_scheme) handled" where
  "onDownloadError c event =
     (let gs = onEvent c ''downloadError'' event in
      case activeGIDs c (GID event) of
        Some channel \<Rightarrow>
          (case chan_send c channel (Some (errors_New ''download encountered error'')) of
             Some c' \<Rightarrow> \<lparr>client_after = c', spawned = gs, ended = Returned None\<rparr>
           | None \<Rightarrow> \<lparr>client_after = c, spawned = gs, ended = Blocked\<rparr>)
      | None \<Rightarrow> \<lparr>client_after = c, spawned = gs, ended = Returned None\<rparr>)"

subsection \<open>Waiting for a download\<close>

text \<open>
  \<^verbatim>\<open>
  func (c *Client) WaitForDownload(gid string) error {
      channel, ok := c.activeGIDs[gid]
      if !ok {
          channel = make(chan error, 1)
          c.activeGIDs[gid] = channel
      }
      err := <-channel
      delete(c.activeGIDs, gid)
      return err
  }
  \<close>
  The function blocks in the middle, so it is two steps. \<open>WaitForDownload_register\<close> is
  the part before the receive and returns the channel the waiter holds;
  \<open>WaitForDownload_receive\<close> is the receive and what follows it, \<open>None\<close> while the
  channel is empty and the waiter blocked.
\<close>

definition WaitForDownload_register :: "'l Client \<Rightarrow> string \<Rightarrow> 'l Client \<times> chan" where
  "WaitForDownload_register c gid =
     (case activeGIDs c gid of
        Some channel \<Rightarrow> (c, channel)
      | None \<Rightarrow>
          (let channel = next_chan c
           in (c\<lparr>chans := (chans c)(channel := []),
                 next_chan := Suc channel,
                 activeGIDs := (activeGIDs c)(gid \<mapsto> channel)\<rparr>, channel)))"

definition WaitForDownload_receive ::
  "'l Client \<Rightarrow> string \<Rightarrow> chan \<Rightarrow> ('l Client \<times> error option) option" where
  "WaitForDownload_receive c gid channel =
     (case chan_recv c channel of
        None \<Rightarrow> None
      | Some (c', err) \<Rightarrow> Some (c'\<lparr>activeGIDs := (activeGIDs c')(gid := None)\<rparr>, err))"

subsection \<open>Download handles\<close>

text \<open>
  Modelled from the spec: the declaration of the struct \<^verbatim>\<open>GID\<close> is not in
  \<^verbatim>\<open>client.go\<close>. \<^verbatim>\<open>GetGID\<close> builds it as \<^verbatim>\<open>GID{c, gid}\<close>: a pointer to the client
  and the handle string. \<open>'c\<close> is the type of client references; the zero value of the
  struct has the nil pointer and the empty string.
\<close>

record 'c GID_struct =
  client :: "'c option"
  gid :: string

definition GID_zero :: "'c GID_struct" where
  "GID_zero = \<lparr>client = None, gid = []\<rparr>"

text \<open>\<^verbatim>\<open>func (c *Client) GetGID(gid string) GID { return GID{c, gid} }\<close>\<close>

definition GetGID :: "'c \<Rightarrow> string \<Rightarrow> 'c GID_struct" where
  "GetGID c g = \<lparr>client = Some c, gid = g\<rparr>"

text \<open>
  \<^verbatim>\<open>
  var reply []string
  err := c.rpcClient.Call("aria2.addMetalink", args, &reply)
  gids := make([]GID, len(reply))
  for _, rawGID := range reply {
      gids = append(gids, c.GetGID(rawGID))
  }
  return gids, err
  \<close>
  The arguments of the call (the encoded file, the options, the position) decide what
  the server answers, not what the function does with the answer; the function is
  modelled from the reply and the error of the call.
\<close>

fun AddMetalink_loop :: "'c \<Rightarrow> string list \<Rightarrow> 'c GID_struct list \<Rightarrow> 'c GID_struct list" where
  "AddMetalink_loop c [] gids = gids"
| "AddMetalink_loop c (rawGID # rest) gids = AddMetalink_loop c rest (gids @ [GetGID c rawGID])"

definition AddMetalinkAtPosition ::
  "'c \<Rightarrow> string list \<times> error option \<Rightarrow> 'c GID_struct list \<times> error option" where
  "AddMetalinkAtPosition c call =
     (let (reply, err) = call;
          gids = replicate (length reply) GID_zero
      in (AddMetalink_loop c reply gids, err))"

subsection \<open>Submitting a download and waiting for it\<close>

text \<open>
  What the remote side and the scheduler contribute to one run of
  \<^verbatim>\<open>DownloadWithContext\<close>: the reply and error of each remote call, and the moments
  that decide its \<^verbatim>\<open>select\<close> statement, on one clock.
  \<open>select_at\<close>: the moment the caller reaches the \<^verbatim>\<open>select\<close>.
  \<open>ctx_Done_at\<close>: the moment the cancellation signal fires, \<open>None\<close> when it never does.
  \<open>downloadDone_at\<close>: the moment the goroutine puts the waiter's outcome on
  \<^verbatim>\<open>downloadDone\<close>, \<open>None\<close> when it never does; the waiter returns only after the
  terminal notification has reached it, so this moment is not earlier than the
  notification.
  \<open>chosen\<close>: the pseudo-random choice Go makes between cases that can proceed together.
  \<open>'st\<close> is the type \<^verbatim>\<open>Status\<close>, whose declaration is not in \<^verbatim>\<open>client.go\<close>; its
  zero value is passed to the function.
\<close>

datatype select_case = DownloadDone | CtxDone

record 'st replies =
  AddUri_reply :: "string \<times> error option"
  select_at :: nat
  ctx_Done_at :: "nat option"
  downloadDone_at :: "nat option"
  chosen :: select_case
  TellStatus_reply :: "'st \<times> error option"
  Remove_reply :: "error option"
  GetFiles_reply :: "string list \<times> error option"

text \<open>Whether a receive can proceed at moment \<open>t\<close> on a channel that is served at \<open>at\<close>.\<close>

definition can_proceed :: "nat option \<Rightarrow> nat \<Rightarrow> bool" where
  "can_proceed at t = (case at of None \<Rightarrow> False | Some u \<Rightarrow> u \<le> t)"

text \<open>
  A \<^verbatim>\<open>select\<close> without default, as the language defines it: if one or more of the
  communications can proceed when the statement is reached, one of them is chosen
  pseudo-randomly; otherwise the statement blocks until one can proceed and takes that
  one, and blocks for ever (\<open>None\<close>) when none ever can. The code gives neither case
  a priority.
\<close>

definition select_fires :: "'st replies \<Rightarrow> select_case option" where
  "select_fires r =
     (let done_ready = can_proceed (downloadDone_at r) (select_at r);
          ctx_ready = can_proceed (ctx_Done_at r) (select_at r)
      in if done_ready \<and> ctx_ready then Some (chosen r)
         else if done_ready then Some DownloadDone
         else if ctx_ready then Some CtxDone
         else
           (case downloadDone_at r of
              None \<Rightarrow> (case ctx_Done_at r of None \<Rightarrow> None | Some v \<Rightarrow> Some CtxDone)
            | Some u \<Rightarrow>
                (case ctx_Done_at r of
                   None \<Rightarrow> Some DownloadDone
                 | Some v \<Rightarrow>
                     if u < v then Some DownloadDone
                     else if v < u then Some CtxDone
                     else Some (chosen r))))"

text \<open>
  What a run does besides returning: remote calls (method name and handle or URIs),
  goroutines started on \<^verbatim>\<open>WaitForDownload\<close>, files removed.
\<close>

datatype effect =
    RpcCall string "string list"
  | GoWaitForDownload string
  | OsRemove string

text \<open>
  \<^verbatim>\<open>
  func (c *Client) Delete(gid string) (err error) {
      err = c.Remove(gid)
      if err != nil { return }
      files, err := c.GetFiles(gid)
      if err == nil {
          for _, file := range files { _ = os.Remove(file.Path) }
      }
      return
  }
  \<close>
  The files of the reply are given by their paths.
\<close>

definition Delete :: "'st replies \<Rightarrow> string \<Rightarrow> error option \<times> effect list" where
  "Delete r g =
     (case Remove_reply r of
        Some e \<Rightarrow> (Some e, [RpcCall ''aria2.remove'' [g]])
      | None \<Rightarrow>
          (let (files, err) = GetFiles_reply r;
               calls = [RpcCall ''aria2.remove'' [g], RpcCall ''aria2.getFiles'' [g]]
           in if err = None then (err, calls @ map OsRemove files) else (err, calls)))"

text \<open>
  \<^verbatim>\<open>AddUri\<close> is \<^verbatim>\<open>AddUriAtPosition\<close> without a position, which ends in
  \<^verbatim>\<open>
  var reply string
  err := c.rpcClient.Call("aria2.addUri", args, &reply)
  return c.GetGID(reply), err
  \<close>
  and \<^verbatim>\<open>TellStatus\<close> is
  \<^verbatim>\<open>
  var reply Status
  err := c.rpcClient.Call("aria2.tellStatus", c.getArgs(gid, keys), &reply)
  return reply, err
  \<close>
  Each returns its value and the call it has made.
\<close>

definition AddUri ::
  "'c \<Rightarrow> 'st replies \<Rightarrow> string list \<Rightarrow> ('c GID_struct \<times> error option) \<times> effect list" where
  "AddUri cl r uris =
     (let (reply, err) = AddUri_reply r
      in ((GetGID cl reply, err), [RpcCall ''aria2.addUri'' uris]))"

definition TellStatus :: "'st replies \<Rightarrow> string \<Rightarrow> ('st \<times> error option) \<times> effect list" where
  "TellStatus r g = (TellStatus_reply r, [RpcCall ''aria2.tellStatus'' [g]])"

text \<open>
  Modelled from the spec: the methods of \<^verbatim>\<open>GID\<close> are not in \<^verbatim>\<open>client.go\<close>.
  \<^verbatim>\<open>gid.TellStatus()\<close>, \<^verbatim>\<open>gid.Delete()\<close> and \<^verbatim>\<open>gid.WaitForDownload()\<close> are taken to call
  the method of the same name of the client on the handle of \<^verbatim>\<open>gid\<close>; the last is
  only ever started as a goroutine, which is the effect \<open>GoWaitForDownload\<close>.
\<close>

definition GID_TellStatus ::
  "'st replies \<Rightarrow> 'c GID_struct \<Rightarrow> ('st \<times> error option) \<times> effect list" where
  "GID_TellStatus r g = TellStatus r (gid g)"

definition GID_Delete :: "'st replies \<Rightarrow> 'c GID_struct \<Rightarrow> error option \<times> effect list" where
  "GID_Delete r g = Delete r (gid g)"

text \<open>
  \<^verbatim>\<open>
  func (c *Client) DownloadWithContext(ctx context.Context, uris []string, options *Options)
          (status Status, err error) {
      gid, err := c.AddUri(uris, options)
      if err != nil { return }
      downloadDone := make(chan error, 1)
      go func() { downloadDone <- gid.WaitForDownload() }()
      select {
      case <-downloadDone:
          status, err = gid.TellStatus()
          if err != nil { return }
      case <-ctx.Done():
          _ = gid.Delete()
          err = errors.New("download cancelled")
      }
      return
  }
  \<close>
  A run is what the call returns, the pair \<^verbatim>\<open>(status, err)\<close>, or \<open>Blocked\<close> when the
  \<^verbatim>\<open>select\<close> never proceeds, together with what it has done. \<open>cl\<close> is the reference
  to the client, the receiver \<^verbatim>\<open>c\<close>.
\<close>

record 'st run =
  result :: "('st \<times> error option) outcome"
  effects :: "effect list"

definition DownloadWithContext ::
  "'c \<Rightarrow> 'st \<Rightarrow> 'st replies \<Rightarrow> string list \<Rightarrow> 'st run" where
  "DownloadWithContext cl Status_zero r uris =
     (let ((g, e), submitted) = AddUri cl r uris
      in if e \<noteq> None then \<lparr>result = Returned (Status_zero, e), effects = submitted\<rparr>
         else
           (let started = submitted @ [GoWaitForDownload (gid g)] in
            case select_fires r of
              None \<Rightarrow> \<lparr>result = Blocked, effects = started\<rparr>
            | Some DownloadDone \<Rightarrow>
                (let ((st, e'), fetched) = GID_TellStatus r g
                 in \<lparr>result = Returned (st, e'), effects = started @ fetched\<rparr>)
            | Some CtxDone \<Rightarrow>
                (let (_, removal) = GID_Delete r g
                 in \<lparr>result = Returned (Status_zero, Some (errors_New ''download cancelled'')),
                     effects = started @ removal\<rparr>)))"

text \<open>
  The waiter table once every goroutine of a run has reached its receive: each
  \<open>GoWaitForDownload\<close> registers its handle, nothing else touches the table.
\<close>

fun registrations :: "'l Client \<Rightarrow> effect list \<Rightarrow> 'l Client" where
  "registrations c [] = c"
| "registrations c (GoWaitForDownload g # es) =
     registrations (fst (WaitForDownload_register c g)) es"
| "registrations c (_ # es) = registrations c es"

section \<open>Decoding the reply of a multicall\<close>

subsection \<open>JSON values\<close>

text \<open>
  The elements of the reply are \<^verbatim>\<open>json.RawMessage\<close>s cut out of one decoded array, so
  each is the text of one well-formed JSON value. They are modelled by the value they
  spell. A number is either an integer literal (no fraction, no exponent) or another
  number literal, kept as its text.
\<close>

datatype json =
    JNull
  | JBool bool
  | JInt int
  | JFloat string
  | JString string
  | JArray "json list"
  | JObject "(string \<times> json) list"

subsection \<open>The failure descriptor and the batch result\<close>

text \<open>
  Modelled from the spec: the declarations of \<^verbatim>\<open>MethodCallError\<close> and
  \<^verbatim>\<open>MethodResult\<close> are not in \<^verbatim>\<open>client.go\<close>. The failure descriptor is "code +
  message", an integer and a string, and is compared with \<^verbatim>\<open>==\<close>. \<^verbatim>\<open>MultiCall\<close> builds
  \<^verbatim>\<open>MethodResult{Result: methodResult, Error: &methodErr}\<close> from a \<^verbatim>\<open>[]byte\<close> and a
  pointer to a descriptor.
\<close>

record MethodCallError =
  Code :: int
  Message :: string

definition MethodCallError_zero :: MethodCallError where
  "MethodCallError_zero = \<lparr>Code = 0, Message = []\<rparr>"

record MethodResult =
  Result :: "json option"
  Error :: "MethodCallError option"

definition MethodResult_zero :: MethodResult where
  "MethodResult_zero = \<lparr>Result = None, Error = None\<rparr>"

text \<open>
  The failure a batch result reports: the descriptor \<^verbatim>\<open>Error\<close> points to when that
  differs from the zero value, which is the test \<^verbatim>\<open>MultiCall\<close> itself applies
  (\<^verbatim>\<open>methodErr == (MethodCallError{})\<close> means "no failure"); \<open>None\<close> otherwise.
\<close>

definition failure :: "MethodResult \<Rightarrow> MethodCallError option" where
  "failure r =
     (case Error r of
        None \<Rightarrow> None
      | Some d \<Rightarrow> if d = MethodCallError_zero then None else Some d)"

subsection \<open>\<^verbatim>\<open>json.Unmarshal\<close> at the two types \<^verbatim>\<open>MultiCall\<close> uses\<close>

text \<open>
  \<^verbatim>\<open>encoding/json\<close> matches an object key with the name of a struct field exactly or,
  failing that, after folding both: ASCII letters lose their case, and the two
  characters outside ASCII whose case folding is an ASCII letter go to that letter, the
  long s (bytes C5 BF in UTF-8) to \<open>s\<close> and the Kelvin sign (bytes E2 84 AA) to \<open>k\<close>.
  Keys are byte strings, as in Go.
\<close>

definition ascii_lower :: "char \<Rightarrow> char" where
  "ascii_lower ch =
     (case map_of (zip ''ABCDEFGHIJKLMNOPQRSTUVWXYZ'' ''abcdefghijklmnopqrstuvwxyz'') ch of
        Some l \<Rightarrow> l
      | None \<Rightarrow> ch)"

fun foldName :: "string \<Rightarrow> string" where
  "foldName (a # b # c # rest) =
     (if a = CHR 0xC5 \<and> b = CHR 0xBF then CHR ''s'' # foldName (c # rest)
      else if a = CHR 0xE2 \<and> b = CHR 0x84 \<and> c = CHR 0xAA then CHR ''k'' # foldName rest
      else ascii_lower a # foldName (b # c # rest))"
| "foldName [a, b] =
     (if a = CHR 0xC5 \<and> b = CHR 0xBF then ''s'' else [ascii_lower a, ascii_lower b])"
| "foldName [a] = [ascii_lower a]"
| "foldName [] = []"

text \<open>
  One member of an object stored into a \<^verbatim>\<open>MethodCallError\<close>: an integer literal in the
  range of a 64-bit \<^verbatim>\<open>int\<close> sets \<^verbatim>\<open>Code\<close>, a string sets \<^verbatim>\<open>Message\<close>; a value of another
  kind, \<^verbatim>\<open>null\<close> and an unknown key leave the struct as it is (the decoder records a type
  error, which \<^verbatim>\<open>MultiCall\<close> discards, and goes on). The fields are taken to answer to
  the keys \<open>code\<close> and \<open>message\<close>, the names aria2 sends.
\<close>

definition store_member :: "MethodCallError \<Rightarrow> string \<times> json \<Rightarrow> MethodCallError" where
  "store_member e kv =
     (let (k, v) = kv in
      if foldName k = ''code'' then
        (case v of
           JInt n \<Rightarrow> if - (2 ^ 63) \<le> n \<and> n < 2 ^ 63 then e\<lparr>Code := n\<rparr> else e
         | _ \<Rightarrow> e)
      else if foldName k = ''message'' then
        (case v of JString s \<Rightarrow> e\<lparr>Message := s\<rparr> | _ \<Rightarrow> e)
      else e)"

text \<open>
  \<^verbatim>\<open>json.Unmarshal(rawResult, &methodErr)\<close>: an object is stored member by member, in
  order; any other value leaves the struct as it is.
\<close>

definition Unmarshal_MethodCallError :: "json \<Rightarrow> MethodCallError \<Rightarrow> MethodCallError" where
  "Unmarshal_MethodCallError rawResult methodErr =
     (case rawResult of
        JObject members \<Rightarrow> foldl store_member methodErr members
      | _ \<Rightarrow> methodErr)"

text \<open>
  \<^verbatim>\<open>json.Unmarshal(rawResult, &resultArray)\<close> with \<^verbatim>\<open>var resultArray [1]json.RawMessage\<close>,
  given by the one slot of the array: the first element of a JSON array is stored, its
  further elements are skipped, the slot is zeroed when the JSON array is empty; any
  other value leaves the slot as it is.
\<close>

definition Unmarshal_resultArray :: "json \<Rightarrow> json option \<Rightarrow> json option" where
  "Unmarshal_resultArray rawResult slot =
     (case rawResult of
        JArray [] \<Rightarrow> None
      | JArray (x # _) \<Rightarrow> Some x
      | _ \<Rightarrow> slot)"

subsection \<open>\<^verbatim>\<open>MultiCall\<close>\<close>

text \<open>
  \<^verbatim>\<open>
  var rawResults []json.RawMessage
  err := c.rpcClient.Call("aria2.multicall", c.getArgs(methods), &rawResults)
  results := make([]MethodResult, len(rawResults))
  for i, rawResult := range rawResults {
      var methodResult []byte
      var methodErr MethodCallError
      _ = json.Unmarshal(rawResult, &methodErr)
      if methodErr == (MethodCallError{}) {
          var resultArray [1]json.RawMessage
          _ = json.Unmarshal(rawResult, &resultArray)
          methodResult = resultArray[0]
      }
      results[i] = MethodResult{Result: methodResult, Error: &methodErr}
  }
  return results, err
  \<close>
  \<open>MultiCall_body\<close> is the body of the loop up to the value stored at \<open>results[i]\<close>.
\<close>

definition MultiCall_body :: "json \<Rightarrow> MethodResult" where
  "MultiCall_body rawResult =
     (let methodErr = Unmarshal_MethodCallError rawResult MethodCallError_zero;
          methodResult =
            (if methodErr = MethodCallError_zero
             then Unmarshal_resultArray rawResult None
             else None)
      in \<lparr>Result = methodResult, Error = Some methodErr\<rparr>)"

fun MultiCall_loop :: "nat \<Rightarrow> json list \<Rightarrow> MethodResult list \<Rightarrow> MethodResult list" where
  "MultiCall_loop i [] results = results"
| "MultiCall_loop i (rawResult # rest) results =
     MultiCall_loop (Suc i) rest (results[i := MultiCall_body rawResult])"

definition MultiCall :: "json list \<times> error option \<Rightarrow> MethodResult list \<times> error option" where
  "MultiCall call =
     (let (rawResults, err) = call;
          results = replicate (length rawResults) MethodResult_zero
      in (MultiCall_loop 0 rawResults results, err))"

section \<open>Example inputs\<close>

text \<open>A notification that carries the handle \<open>2089b05ecca3d829\<close>.\<close>

definition event0 :: DownloadEvent where
  "event0 = \<lparr>GID = ''2089b05ecca3d829''\<rparr>"

text \<open>A client on which one waiter has registered for that handle and is blocked.\<close>

definition waiting_client :: "nat Client" where
  "waiting_client = fst (WaitForDownload_register NewClient ''2089b05ecca3d829'')"

text \<open>
  A run in which the submission succeeds, the caller waits in its \<^verbatim>\<open>select\<close> from
  moment 2, the context is cancelled at moment 5, the download ends a moment later, and
  the removal fails.
\<close>

definition cancelled_run :: "nat replies" where
  "cancelled_run =
     \<lparr>AddUri_reply = (''2089b05ecca3d829'', None),
      select_at = 2, ctx_Done_at = Some 5, downloadDone_at = Some 6, chosen = DownloadDone,
      TellStatus_reply = (1, None),
      Remove_reply = Some (errors_New ''remove failed''),
      GetFiles_reply = ([], None)\<rparr>"

text \<open>
  A run on a context that is cancelled at moment 0. The terminal notification follows,
  and the waiter's outcome is on \<^verbatim>\<open>downloadDone\<close> at moment 2, before the caller
  reaches its \<^verbatim>\<open>select\<close> at moment 3; of the two cases that can proceed Go takes
  \<^verbatim>\<open>downloadDone\<close>.
\<close>

definition raced_run :: "nat replies" where
  "raced_run =
     \<lparr>AddUri_reply = (''2089b05ecca3d829'', None),
      select_at = 3, ctx_Done_at = Some 0, downloadDone_at = Some 2, chosen = DownloadDone,
      TellStatus_reply = (1, None),
      Remove_reply = None,
      GetFiles_reply = ([], None)\<rparr>"

text \<open>A run in which the server refuses the submission.\<close>

definition refused_run :: "nat replies" where
  "refused_run =
     \<lparr>AddUri_reply = ([], Some (errors_New ''Unauthorized'')),
      select_at = 1, ctx_Done_at = None, downloadDone_at = Some 4, chosen = DownloadDone,
      TellStatus_reply = (1, None),
      Remove_reply = None,
      GetFiles_reply = ([], None)\<rparr>"

text \<open>
  The reply to a multicall of three sub-calls, the second of which failed:
  \<^verbatim>\<open>[["2089b05ecca3d829"], {"code":1,"message":"No URI to download."}, ["OK"]]\<close>.
\<close>

definition reply0 :: "json list" where
  "reply0 =
     [JArray [JString ''2089b05ecca3d829''],
      JObject [(''code'', JInt 1), (''message'', JString ''No URI to download.'')],
      JArray [JString ''OK'']]"

text \<open>A failure descriptor whose fields are at their defaults: \<^verbatim>\<open>{"code":0,"message":""}\<close>.\<close>

definition empty_failure :: json where
  "empty_failure = JObject [(''code'', JInt 0), (''message'', JString [])]"

section \<open>Listeners\<close>

lemma Subscribe_all_existing:
  "listeners c k = Some ls0 \<Longrightarrow> listeners (Subscribe_all c k ls) k = Some (ls0 @ ls)"
  by (induction ls arbitrary: c ls0) (simp_all add: Subscribe_def)

lemma Subscribe_all_fresh:
  "listeners c k = None \<Longrightarrow> listeners (Subscribe_all c k (l # ls)) k = Some (None # l # ls)"
  by (simp add: Subscribe_all_existing Subscribe_def)

text \<open>
  Claim C2 says that after \<^verbatim>\<open>Subscribe(k, l1)\<close>, ..., \<^verbatim>\<open>Subscribe(k, ln)\<close> the listener
  table for \<open>k\<close> holds exactly \<open>l1, ..., ln\<close> in insertion order, and that one
  notification of kind \<open>k\<close> invokes each of them once with the same event and invokes
  nothing else. The code does not do that. On a new client, the first \<^verbatim>\<open>Subscribe\<close> for
  a kind starts the table entry from \<^verbatim>\<open>make([]EventListener, 1)\<close>, so the entry is the nil
  func followed by \<open>l1, ..., ln\<close>; \<^verbatim>\<open>onEvent\<close> starts one goroutine per element of the
  entry, the first of them on the nil func, with the same event for all.
\<close>

theorem Subscribe_leaves_nil_listener:
  "listeners (Subscribe_all NewClient k (map Some (l # ls))) k = Some (None # map Some (l # ls))
   \<and> onEvent (Subscribe_all NewClient k (map Some (l # ls))) k ev =
       (None, ev) # map (\<lambda>x. (Some x, ev)) (l # ls)
   \<and> calls_nil (onEvent (Subscribe_all NewClient k (map Some (l # ls))) k ev)"
proof -
  have "listeners (Subscribe_all NewClient k (map Some (l # ls))) k =
          Some (None # map Some (l # ls))"
    using Subscribe_all_fresh [of NewClient k "Some l" "map Some ls"]
    by (simp add: NewClient_def)
  then show ?thesis by (simp add: onEvent_def comp_def)
qed

section \<open>The waiter table\<close>

lemma register_entry:
  "WaitForDownload_register c h = (c1, ch) \<Longrightarrow> activeGIDs c1 h = Some ch"
  by (auto simp: WaitForDownload_register_def Let_def split: option.splits)

lemma receive_blocked: "(WaitForDownload_receive c h ch = None) = (chans c ch = [])"
  by (simp add: WaitForDownload_receive_def chan_recv_def split: list.splits)

text \<open>A waiter that registers for a handle nobody waits for finds its channel empty.\<close>

lemma register_fresh_blocks:
  "activeGIDs c h = None \<Longrightarrow>
   WaitForDownload_receive (fst (WaitForDownload_register c h)) h
     (snd (WaitForDownload_register c h)) = None"
  by (simp add: receive_blocked WaitForDownload_register_def Let_def)

lemma waiting_client_register:
  "WaitForDownload_register NewClient ''2089b05ecca3d829'' = (waiting_client, 0)"
  by (simp add: waiting_client_def WaitForDownload_register_def NewClient_def Let_def)

lemma waiting_client_entry: "activeGIDs waiting_client ''2089b05ecca3d829'' = Some 0"
  by (simp add: waiting_client_def WaitForDownload_register_def NewClient_def Let_def)

lemma waiting_client_chan: "chans waiting_client 0 = []"
  by (simp add: waiting_client_def WaitForDownload_register_def NewClient_def Let_def)

lemma GID_event0: "GID event0 = ''2089b05ecca3d829''"
  by (simp add: event0_def)

text \<open>
  Claim C3: for every handle \<open>h\<close>, calling \<^verbatim>\<open>WaitForDownload(h)\<close> and then delivering a
  completed signal for \<open>h\<close> yields a nil error to the waiter, and afterwards
  \<^verbatim>\<open>activeGIDs\<close> holds no entry for \<open>h\<close>.
  The waiter registers and blocks on its channel; \<^verbatim>\<open>onDownloadComplete\<close> for \<open>h\<close> then
  returns nil without blocking; the waiter's receive now returns, with the nil error,
  and in the state it leaves \<open>h\<close> has no entry.
\<close>

theorem wait_then_complete:
  assumes reg: "WaitForDownload_register c h = (c1, ch)"
    and blocked: "WaitForDownload_receive c1 h ch = None"
    and ev: "GID ev = h"
  shows "\<exists>c3. ended (onDownloadComplete c1 ev) = Returned None
            \<and> WaitForDownload_receive (client_after (onDownloadComplete c1 ev)) h ch =
                Some (c3, None)
            \<and> activeGIDs c3 h = None"
proof -
  from reg have entry: "activeGIDs c1 h = Some ch" by (rule register_entry)
  from blocked have empty: "chans c1 ch = []" by (simp add: receive_blocked)
  let ?c2 = "c1\<lparr>chans := (chans c1)(ch := [None])\<rparr>"
  have sent: "chan_send c1 ch None = Some ?c2"
    using empty by (simp add: chan_send_def)
  have handled: "onDownloadComplete c1 ev =
      \<lparr>client_after = ?c2, spawned = onEvent c1 ''downloadComplete'' ev, ended = Returned None\<rparr>"
    using entry ev sent by (simp add: onDownloadComplete_def)
  have received: "WaitForDownload_receive ?c2 h ch =
      Some (?c2\<lparr>chans := (chans ?c2)(ch := []), activeGIDs := (activeGIDs ?c2)(h := None)\<rparr>, None)"
    by (simp add: WaitForDownload_receive_def chan_recv_def)
  show ?thesis using handled received by simp
qed

text \<open>
  Claim C3 on a new client and the handle \<open>2089b05ecca3d829\<close>: the registration makes
  channel 0, the waiter blocks, and the completed signal releases it with nil.
\<close>

theorem wait_then_complete_witness:
  "WaitForDownload_register NewClient ''2089b05ecca3d829'' = (waiting_client, 0)
   \<and> WaitForDownload_receive waiting_client ''2089b05ecca3d829'' 0 = None
   \<and> GID event0 = ''2089b05ecca3d829''
   \<and> (\<exists>c3. ended (onDownloadComplete waiting_client event0) = Returned None
          \<and> WaitForDownload_receive (client_after (onDownloadComplete waiting_client event0))
                ''2089b05ecca3d829'' 0 = Some (c3, None)
          \<and> activeGIDs c3 ''2089b05ecca3d829'' = None)"
proof -
  have b: "WaitForDownload_receive waiting_client ''2089b05ecca3d829'' 0 = None"
    by (simp add: receive_blocked waiting_client_chan)
  show ?thesis
    using waiting_client_register b GID_event0
      wait_then_complete [OF waiting_client_register b GID_event0]
    by simp
qed

text \<open>
  Claim C4: for every handle \<open>h\<close> with a registered waiter, a \<^verbatim>\<open>downloadStop\<close>
  notification for \<open>h\<close> delivers a non-nil error and a \<^verbatim>\<open>downloadError\<close> notification
  for \<open>h\<close> delivers a different non-nil error, so the error the waiter returns tells the
  stopped cause from the errored cause.
  The waiter is registered on channel \<open>ch\<close> and blocked on it. After either handler its
  receive returns: the error "download stopped" after \<^verbatim>\<open>onDownloadStop\<close>, the error
  "download encountered error" after \<^verbatim>\<open>onDownloadError\<close>, and the two are different.
\<close>

theorem stop_and_error_differ:
  assumes entry: "activeGIDs c h = Some ch"
    and empty: "chans c ch = []"
    and ev: "GID ev = h"
  shows "map_option snd (WaitForDownload_receive (client_after (onDownloadStop c ev)) h ch) =
           Some (Some (errors_New ''download stopped''))
       \<and> map_option snd (WaitForDownload_receive (client_after (onDownloadError c ev)) h ch) =
           Some (Some (errors_New ''download encountered error''))
       \<and> errors_New ''download stopped'' \<noteq> errors_New ''download encountered error''"
  using assms
  by (simp add: onDownloadStop_def onDownloadError_def chan_send_def
      WaitForDownload_receive_def chan_recv_def)

text \<open>Claim C4 on the client with one blocked waiter for \<open>2089b05ecca3d829\<close>.\<close>

theorem stop_and_error_differ_witness:
  "activeGIDs waiting_client ''2089b05ecca3d829'' = Some 0
   \<and> chans waiting_client 0 = []
   \<and> GID event0 = ''2089b05ecca3d829''
   \<and> map_option snd (WaitForDownload_receive (client_after (onDownloadStop waiting_client event0))
        ''2089b05ecca3d829'' 0) = Some (Some (errors_New ''download stopped''))
   \<and> map_option snd (WaitForDownload_receive (client_after (onDownloadError waiting_client event0))
        ''2089b05ecca3d829'' 0) = Some (Some (errors_New ''download encountered error''))"
  using waiting_client_entry waiting_client_chan GID_event0
    stop_and_error_differ [OF waiting_client_entry waiting_client_chan GID_event0]
  by simp

text \<open>
  A terminal notification for a handle nobody waits for: each of the three handlers
  leaves the whole client as it was, channels included, and returns nil. The lookup of
  a missing key in a map gives \<^verbatim>\<open>ok = false\<close>, and the branch taken attempts no send.
  What the handler has started besides is the dispatch of \<^verbatim>\<open>onEvent\<close> to the listener
  table of the kind.
\<close>

lemma signal_without_waiter:
  assumes "activeGIDs c (GID ev) = None"
  shows "onDownloadStop c ev =
           \<lparr>client_after = c, spawned = onEvent c ''downloadStop'' ev, ended = Returned None\<rparr>
       \<and> onDownloadComplete c ev =
           \<lparr>client_after = c, spawned = onEvent c ''downloadComplete'' ev,
            ended = Returned None\<rparr>
       \<and> onDownloadError c ev =
           \<lparr>client_after = c, spawned = onEvent c ''downloadError'' ev, ended = Returned None\<rparr>"
  using assms by (simp add: onDownloadStop_def onDownloadComplete_def onDownloadError_def)

lemma Subscribe_activeGIDs: "activeGIDs (Subscribe c k l) = activeGIDs c"
  by (simp add: Subscribe_def Let_def split: option.splits)

lemma onEvent_Subscribe_new:
  "onEvent (Subscribe NewClient k (Some l)) k ev = [(None, ev), (Some l, ev)]"
  by (simp add: onEvent_def Subscribe_def NewClient_def Let_def)

text \<open>
  Claim C9 says that for every handle \<open>h\<close> with no registered waiter a terminal
  notification (\<^verbatim>\<open>downloadStop\<close>, \<^verbatim>\<open>downloadComplete\<close>, \<^verbatim>\<open>downloadError\<close>) for \<open>h\<close>
  leaves \<^verbatim>\<open>activeGIDs\<close> unchanged: no entry is created, nothing panics, and the handler
  returns normally. The code keeps the table and returns nil, but it does not keep
  "nothing panics". On a new client with one listener \<open>l\<close> subscribed for the kind,
  no handle has a waiter; the handler for that kind leaves the client as it was and
  returns nil, and it has started two goroutines, the first of them on the nil func
  that \<^verbatim>\<open>Subscribe\<close> put at the head of the table. That goroutine panics when it runs.
\<close>

theorem signal_without_waiter_calls_nil:
  "activeGIDs (Subscribe NewClient k (Some l)) (GID ev) = None
   \<and> onDownloadStop (Subscribe NewClient ''downloadStop'' (Some l)) ev =
       \<lparr>client_after = Subscribe NewClient ''downloadStop'' (Some l),
        spawned = [(None, ev), (Some l, ev)], ended = Returned None\<rparr>
   \<and> calls_nil (spawned (onDownloadStop (Subscribe NewClient ''downloadStop'' (Some l)) ev))
   \<and> onDownloadComplete (Subscribe NewClient ''downloadComplete'' (Some l)) ev =
       \<lparr>client_after = Subscribe NewClient ''downloadComplete'' (Some l),
        spawned = [(None, ev), (Some l, ev)], ended = Returned None\<rparr>
   \<and> calls_nil
        (spawned (onDownloadComplete (Subscribe NewClient ''downloadComplete'' (Some l)) ev))
   \<and> onDownloadError (Subscribe NewClient ''downloadError'' (Some l)) ev =
       \<lparr>client_after = Subscribe NewClient ''downloadError'' (Some l),
        spawned = [(None, ev), (Some l, ev)], ended = Returned None\<rparr>
   \<and> calls_nil (spawned (onDownloadError (Subscribe NewClient ''downloadError'' (Some l)) ev))"
proof -
  have none: "activeGIDs (Subscribe NewClient k' (Some l)) (GID ev) = None" for k'
    by (simp add: Subscribe_activeGIDs NewClient_def)
  show ?thesis
    using none [of k]
      signal_without_waiter [OF none [of "''downloadStop''"]]
      signal_without_waiter [OF none [of "''downloadComplete''"]]
      signal_without_waiter [OF none [of "''downloadError''"]]
    by (simp add: onEvent_Subscribe_new)
qed

section \<open>Submitting a download and waiting for it\<close>

lemma Delete_calls_remove: "hd (snd (Delete r g)) = RpcCall ''aria2.remove'' [g]"
  by (simp add: Delete_def Let_def split: option.splits prod.splits)

lemma select_cancelled:
  assumes "ctx_Done_at r = Some t"
    and "case downloadDone_at r of None \<Rightarrow> True | Some u \<Rightarrow> t < u \<and> select_at r < u"
  shows "select_fires r = Some CtxDone"
proof (cases "downloadDone_at r")
  case None
  with assms show ?thesis by (simp add: select_fires_def can_proceed_def)
next
  case (Some u)
  with assms have "t < u" and "select_at r < u" by simp_all
  with Some assms(1) show ?thesis by (simp add: select_fires_def can_proceed_def)
qed

text \<open>
  The other ways the \<^verbatim>\<open>select\<close> can go: the waiter's outcome arrives first, and the
  call fetches the status; or neither ever arrives, and the call blocks for ever.
\<close>

lemma select_done:
  assumes "downloadDone_at r = Some u"
    and "case ctx_Done_at r of None \<Rightarrow> True | Some v \<Rightarrow> u < v \<and> select_at r < v"
  shows "select_fires r = Some DownloadDone"
proof (cases "ctx_Done_at r")
  case None
  with assms show ?thesis by (simp add: select_fires_def can_proceed_def)
next
  case (Some v)
  with assms have "u < v" and "select_at r < v" by simp_all
  with Some assms(1) show ?thesis by (simp add: select_fires_def can_proceed_def)
qed

lemma download_done_first:
  assumes "AddUri_reply r = (g, None)"
    and "downloadDone_at r = Some u"
    and "case ctx_Done_at r of None \<Rightarrow> True | Some v \<Rightarrow> u < v \<and> select_at r < v"
  shows "DownloadWithContext cl z r uris =
           \<lparr>result = Returned (TellStatus_reply r),
            effects = [RpcCall ''aria2.addUri'' uris, GoWaitForDownload g,
                       RpcCall ''aria2.tellStatus'' [g]]\<rparr>"
  using assms(1) select_done [OF assms(2,3)]
  by (cases "TellStatus_reply r")
     (simp add: DownloadWithContext_def AddUri_def GID_TellStatus_def TellStatus_def GetGID_def)

lemma download_blocks:
  assumes "AddUri_reply r = (g, None)"
    and "downloadDone_at r = None" and "ctx_Done_at r = None"
  shows "DownloadWithContext cl z r uris =
           \<lparr>result = Blocked,
            effects = [RpcCall ''aria2.addUri'' uris, GoWaitForDownload g]\<rparr>"
  using assms
  by (simp add: DownloadWithContext_def AddUri_def GetGID_def select_fires_def can_proceed_def)

text \<open>
  Claim C5 says that when the cancellation signal fires before the terminal
  notification, \<^verbatim>\<open>DownloadWithContext\<close> returns a cancellation error and no final
  status. It fails on the code when both have happened by the time the caller reaches
  its \<^verbatim>\<open>select\<close>: the context is cancelled at moment 0, the waiter's outcome is on
  \<^verbatim>\<open>downloadDone\<close> at moment 2, the \<^verbatim>\<open>select\<close> is reached at moment 3 and takes the
  case \<^verbatim>\<open>downloadDone\<close>. The call then returns the status that \<^verbatim>\<open>aria2.tellStatus\<close>
  answers, with a nil error, and attempts no removal.
\<close>

theorem cancel_before_done_counterexample:
  "snd (AddUri_reply raced_run) = None
   \<and> ctx_Done_at raced_run = Some 0
   \<and> downloadDone_at raced_run = Some 2
   \<and> DownloadWithContext () 0 raced_run [''http://example.org/file''] =
       \<lparr>result = Returned (1, None),
        effects = [RpcCall ''aria2.addUri'' [''http://example.org/file''],
                   GoWaitForDownload ''2089b05ecca3d829'',
                   RpcCall ''aria2.tellStatus'' [''2089b05ecca3d829'']]\<rparr>"
  by (simp add: raced_run_def DownloadWithContext_def AddUri_def GetGID_def GID_TellStatus_def
      TellStatus_def select_fires_def can_proceed_def)

text \<open>
  Claim C5 as amended: when the cancellation signal fires before any outcome of the wait
  is on \<^verbatim>\<open>downloadDone\<close>, and the caller reaches its \<^verbatim>\<open>select\<close> before such an
  outcome is there, \<^verbatim>\<open>DownloadWithContext\<close> attempts the best-effort removal
  (\<^verbatim>\<open>Delete\<close>), returns a cancellation error and no final status, and the outcome of
  \<^verbatim>\<open>Delete\<close> is swallowed and never replaces that cancellation error.
  The submission has succeeded with handle \<open>g\<close>. The run is pinned: it returns the
  zero status with the error "download cancelled", and what it has done is the call of
  \<^verbatim>\<open>aria2.addUri\<close>, the goroutine on \<^verbatim>\<open>WaitForDownload\<close>, and then all that
  \<^verbatim>\<open>Delete\<close> does, which starts with the call of \<^verbatim>\<open>aria2.remove\<close>. The error that
  \<^verbatim>\<open>Delete\<close> returns appears nowhere in the result.
\<close>

theorem cancel_before_done:
  assumes "AddUri_reply r = (g, None)"
    and "ctx_Done_at r = Some t"
    and "case downloadDone_at r of None \<Rightarrow> True | Some u \<Rightarrow> t < u \<and> select_at r < u"
  shows "DownloadWithContext cl z r uris =
           \<lparr>result = Returned (z, Some (errors_New ''download cancelled'')),
            effects = [RpcCall ''aria2.addUri'' uris, GoWaitForDownload g] @ snd (Delete r g)\<rparr>
       \<and> hd (snd (Delete r g)) = RpcCall ''aria2.remove'' [g]"
  using assms(1) select_cancelled [OF assms(2,3)] Delete_calls_remove [of r g]
  by (cases "Delete r g")
     (simp add: DownloadWithContext_def AddUri_def GID_Delete_def GetGID_def)

text \<open>
  Claim C5 as amended, on a run that waits in its \<^verbatim>\<open>select\<close> from moment 2, is
  cancelled at moment 5 and whose download ends at moment 6; the removal fails with
  "remove failed", and the call still returns status 0 (the zero status here) and the
  cancellation error.
\<close>

theorem cancel_before_done_witness:
  "AddUri_reply cancelled_run = (''2089b05ecca3d829'', None)
   \<and> ctx_Done_at cancelled_run = Some 5
   \<and> downloadDone_at cancelled_run = Some 6
   \<and> (5::nat) < 6
   \<and> select_at cancelled_run < 6
   \<and> Delete cancelled_run ''2089b05ecca3d829'' =
       (Some (errors_New ''remove failed''), [RpcCall ''aria2.remove'' [''2089b05ecca3d829'']])
   \<and> DownloadWithContext () 0 cancelled_run [''http://example.org/file''] =
       \<lparr>result = Returned (0, Some (errors_New ''download cancelled'')),
        effects = [RpcCall ''aria2.addUri'' [''http://example.org/file''],
                   GoWaitForDownload ''2089b05ecca3d829'',
                   RpcCall ''aria2.remove'' [''2089b05ecca3d829'']]\<rparr>"
proof -
  have a: "AddUri_reply cancelled_run = (''2089b05ecca3d829'', None)"
    by (simp add: cancelled_run_def)
  have b: "ctx_Done_at cancelled_run = Some 5" by (simp add: cancelled_run_def)
  have c: "case downloadDone_at cancelled_run of None \<Rightarrow> True
           | Some u \<Rightarrow> 5 < u \<and> select_at cancelled_run < u"
    by (simp add: cancelled_run_def)
  have d: "Delete cancelled_run ''2089b05ecca3d829'' =
       (Some (errors_New ''remove failed''), [RpcCall ''aria2.remove'' [''2089b05ecca3d829'']])"
    by (simp add: Delete_def cancelled_run_def)
  have e: "downloadDone_at cancelled_run = Some 6 \<and> select_at cancelled_run < 6"
    by (simp add: cancelled_run_def)
  show ?thesis
    using a b d e cancel_before_done [OF a b c, of "()" 0 "[''http://example.org/file'']"]
    by simp
qed

text \<open>
  Claim C6: if the submission call (\<^verbatim>\<open>AddUri\<close>) fails, \<^verbatim>\<open>DownloadWithContext\<close> returns
  that submission error immediately and performs no wait registration and no status
  fetch; the waiter table is left unchanged.
  The run returns the zero status with the error of \<^verbatim>\<open>AddUri\<close>; the one thing it has
  done is the call of \<^verbatim>\<open>aria2.addUri\<close>, so no goroutine waits and no client state is
  changed by a registration.
\<close>

theorem submission_failure:
  assumes "AddUri_reply r = (g, Some e)"
  shows "DownloadWithContext cl z r uris =
           \<lparr>result = Returned (z, Some e), effects = [RpcCall ''aria2.addUri'' uris]\<rparr>
       \<and> registrations c (effects (DownloadWithContext cl z r uris)) = c"
  using assms by (simp add: DownloadWithContext_def AddUri_def)

text \<open>Claim C6 on a run whose submission is refused with "Unauthorized".\<close>

theorem submission_failure_witness:
  "AddUri_reply refused_run = ([], Some (errors_New ''Unauthorized''))
   \<and> DownloadWithContext () 0 refused_run [''http://example.org/file''] =
       \<lparr>result = Returned (0, Some (errors_New ''Unauthorized'')),
        effects = [RpcCall ''aria2.addUri'' [''http://example.org/file'']]\<rparr>
   \<and> registrations waiting_client
        (effects (DownloadWithContext () 0 refused_run [''http://example.org/file''])) =
       waiting_client"
proof -
  have a: "AddUri_reply refused_run = ([], Some (errors_New ''Unauthorized''))"
    by (simp add: refused_run_def)
  show ?thesis
    using a submission_failure [OF a, of "()" 0 "[''http://example.org/file'']" waiting_client]
    by simp
qed

section \<open>Metalink downloads\<close>

lemma AddMetalink_loop_append:
  "AddMetalink_loop c reply gids = gids @ map (GetGID c) reply"
  by (induction reply arbitrary: gids) simp_all

text \<open>
  Claim C10: for every successful \<^verbatim>\<open>aria2.addMetalink\<close> reply of \<open>n\<close> GID strings,
  \<^verbatim>\<open>AddMetalinkAtPosition\<close> returns a slice of length \<open>2n\<close> whose first \<open>n\<close> entries are
  zero-value GIDs and whose last \<open>n\<close> entries wrap the \<open>n\<close> reply strings in order,
  rather than a slice of exactly the \<open>n\<close> newly registered GIDs.
  This holds whatever the error of the call is, so in particular when it is nil; the
  result is the list of the \<open>n\<close> wrapped reply strings only when \<open>n = 0\<close>.
\<close>

theorem AddMetalinkAtPosition_doubles:
  "AddMetalinkAtPosition c (reply, e) =
     (replicate (length reply) GID_zero @ map (GetGID c) reply, e)
   \<and> length (fst (AddMetalinkAtPosition c (reply, e))) = 2 * length reply
   \<and> take (length reply) (fst (AddMetalinkAtPosition c (reply, e))) =
       replicate (length reply) GID_zero
   \<and> drop (length reply) (fst (AddMetalinkAtPosition c (reply, e))) = map (GetGID c) reply
   \<and> ((fst (AddMetalinkAtPosition c (reply, e)) = map (GetGID c) reply) = (reply = []))"
proof -
  have eq: "AddMetalinkAtPosition c (reply, e) =
     (replicate (length reply) GID_zero @ map (GetGID c) reply, e)"
    by (simp add: AddMetalinkAtPosition_def AddMetalink_loop_append)
  have "(replicate (length reply) GID_zero @ map (GetGID c) reply = map (GetGID c) reply)
      = (reply = [])"
  proof
    assume "replicate (length reply) (GID_zero :: 'a GID_struct) @ map (GetGID c) reply =
            map (GetGID c) reply"
    then have "length (replicate (length reply) (GID_zero :: 'a GID_struct)
                 @ map (GetGID c) reply) = length (map (GetGID c) reply)"
      by simp
    then show "reply = []" by simp
  next
    assume "reply = []"
    then show "replicate (length reply) GID_zero @ map (GetGID c) reply = map (GetGID c) reply"
      by simp
  qed
  with eq show ?thesis by simp
qed

section \<open>The reply of a multicall\<close>

subsection \<open>The loop fills the results position by position\<close>

lemma MultiCall_loop_eq:
  "i + length raws \<le> length results \<Longrightarrow>
   MultiCall_loop i raws results =
     take i results @ map MultiCall_body raws @ drop (i + length raws) results"
proof (induction raws arbitrary: i results)
  case Nil
  then show ?case by simp
next
  case (Cons r rs)
  from Cons.prems have i: "i < length results" by simp
  have "MultiCall_loop i (r # rs) results =
        MultiCall_loop (Suc i) rs (results[i := MultiCall_body r])" by simp
  also have "\<dots> = take (Suc i) (results[i := MultiCall_body r]) @ map MultiCall_body rs
       @ drop (Suc i + length rs) (results[i := MultiCall_body r])"
    using Cons.prems by (intro Cons.IH) simp
  also have "take (Suc i) (results[i := MultiCall_body r]) =
             take i results @ [MultiCall_body r]"
    using i by (simp add: take_Suc_conv_app_nth)
  also have "drop (Suc i + length rs) (results[i := MultiCall_body r]) =
             drop (i + length (r # rs)) results"
    by simp
  finally show ?case by simp
qed

lemma MultiCall_map: "MultiCall (raws, e) = (map MultiCall_body raws, e)"
  by (simp add: MultiCall_def MultiCall_loop_eq)

lemma MultiCall_nth:
  "i < length raws \<Longrightarrow> fst (MultiCall (raws, e)) ! i = MultiCall_body (raws ! i)"
  by (simp add: MultiCall_map)

lemma MultiCall_length: "length (fst (MultiCall (raws, e))) = length raws"
  by (simp add: MultiCall_map)

lemma body_Error:
  "Error (MultiCall_body raw) = Some (Unmarshal_MethodCallError raw MethodCallError_zero)"
  by (simp add: MultiCall_body_def Let_def)

lemma body_Result:
  "Result (MultiCall_body raw) =
     (if Unmarshal_MethodCallError raw MethodCallError_zero = MethodCallError_zero
      then Unmarshal_resultArray raw None else None)"
  by (simp add: MultiCall_body_def Let_def)

subsection \<open>The example replies, decoded\<close>

lemma decode_empty_failure:
  "Unmarshal_MethodCallError empty_failure MethodCallError_zero = MethodCallError_zero"
  by (simp add: empty_failure_def Unmarshal_MethodCallError_def store_member_def
      ascii_lower_def MethodCallError_zero_def)

lemma decode_reply0:
  "Unmarshal_MethodCallError (reply0 ! 0) MethodCallError_zero = MethodCallError_zero"
  "Unmarshal_MethodCallError (reply0 ! Suc 0) MethodCallError_zero =
     \<lparr>Code = 1, Message = ''No URI to download.''\<rparr>"
  "Unmarshal_MethodCallError (reply0 ! 2) MethodCallError_zero = MethodCallError_zero"
  by (simp_all add: reply0_def Unmarshal_MethodCallError_def store_member_def
      ascii_lower_def MethodCallError_zero_def)

lemma slot_reply0:
  "Unmarshal_resultArray (reply0 ! 0) None = Some (JString ''2089b05ecca3d829'')"
  "Unmarshal_resultArray (reply0 ! 2) None = Some (JString ''OK'')"
  by (simp_all add: reply0_def Unmarshal_resultArray_def)

lemma length_reply0: "length reply0 = 3"
  by (simp add: reply0_def)

lemma failure0_nonzero:
  "\<lparr>Code = 1, Message = ''No URI to download.''\<rparr> \<noteq> MethodCallError_zero"
  by (simp add: MethodCallError_zero_def)

lemma all_less_3: "(\<forall>j<3. P j) = (P 0 \<and> P (Suc 0) \<and> P (2::nat))"
proof
  assume "\<forall>j<3. P j"
  then show "P 0 \<and> P (Suc 0) \<and> P 2" by simp
next
  assume h: "P 0 \<and> P (Suc 0) \<and> P 2"
  show "\<forall>j<3. P j"
  proof (intro allI impI)
    fix j :: nat
    assume "j < 3"
    then have "j = 0 \<or> j = Suc 0 \<or> j = 2" by arith
    with h show "P j" by auto
  qed
qed

lemma body_failure:
  "failure (MultiCall_body raw) =
     (if Unmarshal_MethodCallError raw MethodCallError_zero = MethodCallError_zero
      then None else Some (Unmarshal_MethodCallError raw MethodCallError_zero))"
  by (simp add: failure_def body_Error)

subsection \<open>One field or the other\<close>

text \<open>
  Claim C1 says that for every element of the raw reply the batch result at the same
  position has exactly one of its two fields populated, \<^verbatim>\<open>Result\<close> or \<^verbatim>\<open>Error\<close>, never
  both and never neither. It fails on the code. For the element
  \<^verbatim>\<open>{"code":0,"message":""}\<close> the result has a nil \<^verbatim>\<open>Result\<close> and reports no failure
  (its \<^verbatim>\<open>Error\<close> points to the zero descriptor): neither a payload nor a failure. And
  should "populated" mean "not nil", then both fields are populated for the element
  \<^verbatim>\<open>["OK"]\<close>: the payload is \<^verbatim>\<open>"OK"\<close> and \<^verbatim>\<open>Error\<close> is a pointer to the zero
  descriptor.
\<close>

theorem MultiCall_exactly_one_counterexample:
  "Result (fst (MultiCall ([empty_failure], None)) ! 0) = None
   \<and> failure (fst (MultiCall ([empty_failure], None)) ! 0) = None
   \<and> Result (fst (MultiCall ([JArray [JString ''OK'']], None)) ! 0) = Some (JString ''OK'')
   \<and> Error (fst (MultiCall ([JArray [JString ''OK'']], None)) ! 0) = Some MethodCallError_zero"
proof -
  have a: "Unmarshal_resultArray empty_failure None = None"
    by (simp add: Unmarshal_resultArray_def empty_failure_def)
  have b: "Unmarshal_MethodCallError (JArray [JString ''OK'']) MethodCallError_zero =
             MethodCallError_zero"
    by (simp add: Unmarshal_MethodCallError_def)
  have c: "Unmarshal_resultArray (JArray [JString ''OK'']) None = Some (JString ''OK'')"
    by (simp add: Unmarshal_resultArray_def)
  show ?thesis
    by (simp add: MultiCall_nth body_Error body_Result body_failure decode_empty_failure a b c)
qed

text \<open>
  Claim C1 as amended: for every element of the raw reply, the batch result at the same
  position never has both a success payload and a failure. When the element decodes to
  a failure descriptor that is not the zero value, the result reports that descriptor
  and its \<^verbatim>\<open>Result\<close> is nil. Otherwise the result reports no failure and its \<^verbatim>\<open>Result\<close>
  is the first member of the element decoded as a one-element array, which is nil when
  the element is not a non-empty array; then neither of the two is populated.
\<close>

theorem MultiCall_at_most_one:
  "length (fst (MultiCall (raws, e))) = length raws
   \<and> (\<forall>i < length raws.
        (Unmarshal_MethodCallError (raws ! i) MethodCallError_zero \<noteq> MethodCallError_zero
           \<longrightarrow> failure (fst (MultiCall (raws, e)) ! i) =
                 Some (Unmarshal_MethodCallError (raws ! i) MethodCallError_zero)
               \<and> Result (fst (MultiCall (raws, e)) ! i) = None)
        \<and> (Unmarshal_MethodCallError (raws ! i) MethodCallError_zero = MethodCallError_zero
           \<longrightarrow> failure (fst (MultiCall (raws, e)) ! i) = None
               \<and> Result (fst (MultiCall (raws, e)) ! i) =
                   Unmarshal_resultArray (raws ! i) None))"
  by (simp add: MultiCall_length MultiCall_nth body_failure body_Result)

text \<open>
  Claim C1 as amended, on the reply
  \<^verbatim>\<open>[["2089b05ecca3d829"], {"code":1,"message":"No URI to download."}, ["OK"]]\<close>.
\<close>

theorem MultiCall_at_most_one_witness:
  "length (fst (MultiCall (reply0, None))) = 3
   \<and> Result (fst (MultiCall (reply0, None)) ! 0) = Some (JString ''2089b05ecca3d829'')
   \<and> failure (fst (MultiCall (reply0, None)) ! 0) = None
   \<and> Result (fst (MultiCall (reply0, None)) ! 1) = None
   \<and> failure (fst (MultiCall (reply0, None)) ! 1) =
        Some \<lparr>Code = 1, Message = ''No URI to download.''\<rparr>
   \<and> Result (fst (MultiCall (reply0, None)) ! 2) = Some (JString ''OK'')
   \<and> failure (fst (MultiCall (reply0, None)) ! 2) = None"
proof -
  have "length (fst (MultiCall (reply0, None))) = 3
   \<and> (\<forall>i<3.
        (Unmarshal_MethodCallError (reply0 ! i) MethodCallError_zero \<noteq> MethodCallError_zero
           \<longrightarrow> failure (fst (MultiCall (reply0, None)) ! i) =
                 Some (Unmarshal_MethodCallError (reply0 ! i) MethodCallError_zero)
               \<and> Result (fst (MultiCall (reply0, None)) ! i) = None)
        \<and> (Unmarshal_MethodCallError (reply0 ! i) MethodCallError_zero = MethodCallError_zero
           \<longrightarrow> failure (fst (MultiCall (reply0, None)) ! i) = None
               \<and> Result (fst (MultiCall (reply0, None)) ! i) =
                   Unmarshal_resultArray (reply0 ! i) None))"
    using MultiCall_at_most_one [of reply0 None] by (simp add: length_reply0)
  then show ?thesis
    by (simp add: all_less_3 decode_reply0 slot_reply0 failure0_nonzero)
qed

subsection \<open>Order\<close>

text \<open>
  Claim C7: the decoding of \<^verbatim>\<open>MultiCall\<close> is order-preserving. For every raw reply of
  \<open>N\<close> elements where element \<open>i\<close> decodes to a non-zero failure descriptor and every
  other element decodes to a zero one, the result is a sequence of length \<open>N\<close> in which
  only position \<open>i\<close> is marked as failure and every other position carries the sole
  member of its element decoded as a single-element sequence.
  Position \<open>i\<close> reports the descriptor of element \<open>i\<close> and has no payload; every other
  position \<open>j\<close> reports no failure and has, as payload, the slot of the one-element
  array into which element \<open>j\<close> was decoded.
\<close>

theorem MultiCall_order_preserving:
  assumes i: "i < length raws"
    and fail: "Unmarshal_MethodCallError (raws ! i) MethodCallError_zero \<noteq> MethodCallError_zero"
    and others: "\<forall>j < length raws. j \<noteq> i \<longrightarrow>
                   Unmarshal_MethodCallError (raws ! j) MethodCallError_zero =
                     MethodCallError_zero"
  shows "length (fst (MultiCall (raws, e))) = length raws
       \<and> failure (fst (MultiCall (raws, e)) ! i) =
           Some (Unmarshal_MethodCallError (raws ! i) MethodCallError_zero)
       \<and> Result (fst (MultiCall (raws, e)) ! i) = None
       \<and> (\<forall>j < length raws. j \<noteq> i \<longrightarrow>
             failure (fst (MultiCall (raws, e)) ! j) = None
             \<and> Result (fst (MultiCall (raws, e)) ! j) =
                 Unmarshal_resultArray (raws ! j) None)"
  using assms
  by (simp add: MultiCall_length MultiCall_nth body_failure body_Result)

text \<open>
  Claim C7 on the reply of three elements whose second is a failure: the first and the
  third position carry the members \<^verbatim>\<open>"2089b05ecca3d829"\<close> and \<^verbatim>\<open>"OK"\<close> of their arrays.
\<close>

theorem MultiCall_order_preserving_witness:
  "Suc 0 < length reply0
   \<and> Unmarshal_MethodCallError (reply0 ! Suc 0) MethodCallError_zero \<noteq> MethodCallError_zero
   \<and> Unmarshal_MethodCallError (reply0 ! 0) MethodCallError_zero = MethodCallError_zero
   \<and> Unmarshal_MethodCallError (reply0 ! 2) MethodCallError_zero = MethodCallError_zero
   \<and> length reply0 = 3
   \<and> length (fst (MultiCall (reply0, None))) = 3
   \<and> failure (fst (MultiCall (reply0, None)) ! Suc 0) =
        Some \<lparr>Code = 1, Message = ''No URI to download.''\<rparr>
   \<and> Result (fst (MultiCall (reply0, None)) ! Suc 0) = None
   \<and> failure (fst (MultiCall (reply0, None)) ! 0) = None
   \<and> Result (fst (MultiCall (reply0, None)) ! 0) = Some (JString ''2089b05ecca3d829'')
   \<and> failure (fst (MultiCall (reply0, None)) ! 2) = None
   \<and> Result (fst (MultiCall (reply0, None)) ! 2) = Some (JString ''OK'')"
proof -
  have i: "Suc 0 < length reply0" by (simp add: length_reply0)
  have f: "Unmarshal_MethodCallError (reply0 ! Suc 0) MethodCallError_zero \<noteq>
           MethodCallError_zero"
    by (simp add: decode_reply0(2) failure0_nonzero)
  have o: "\<forall>j < length reply0. j \<noteq> Suc 0 \<longrightarrow>
          Unmarshal_MethodCallError (reply0 ! j) MethodCallError_zero = MethodCallError_zero"
    by (simp add: length_reply0 all_less_3 decode_reply0(1,3))
  show ?thesis
    using i f o MultiCall_order_preserving [OF i f o, of None]
    by (simp add: length_reply0 all_less_3 decode_reply0(2) slot_reply0)
qed

subsection \<open>A failure without code and message\<close>

text \<open>
  Claim C8: for every reply element that is a genuine failure descriptor whose code and
  message fields both equal their defaults, \<^verbatim>\<open>MultiCall\<close> classifies that element as a
  success whose payload is empty, not as a failure.
  The element is a JSON object that decodes to code 0 and the empty message. The result
  at its position is the one \<^verbatim>\<open>MultiCall\<close> gives on its success branch: it reports no
  failure, its \<^verbatim>\<open>Error\<close> pointing to the zero descriptor, and its payload is nil, since
  an object is not a one-element array.
\<close>

theorem MultiCall_empty_failure_is_success:
  assumes "i < length raws" and "raws ! i = JObject members"
    and "Code (Unmarshal_MethodCallError (JObject members) MethodCallError_zero) = 0"
    and "Message (Unmarshal_MethodCallError (JObject members) MethodCallError_zero) = []"
  shows "fst (MultiCall (raws, e)) ! i = \<lparr>Result = None, Error = Some MethodCallError_zero\<rparr>
       \<and> failure (fst (MultiCall (raws, e)) ! i) = None"
proof -
  have z: "Unmarshal_MethodCallError (JObject members) MethodCallError_zero =
           MethodCallError_zero"
    using assms(3,4) by (simp add: MethodCallError_zero_def)
  have "Unmarshal_resultArray (JObject members) None = None"
    by (simp add: Unmarshal_resultArray_def)
  with z assms(1,2) show ?thesis
    by (simp add: MultiCall_nth MultiCall_body_def failure_def)
qed

text \<open>Claim C8 on the reply whose one element is \<^verbatim>\<open>{"code":0,"message":""}\<close>.\<close>

theorem MultiCall_empty_failure_is_success_witness:
  "(0::nat) < length [empty_failure]
   \<and> [empty_failure] ! 0 = JObject [(''code'', JInt 0), (''message'', JString [])]
   \<and> Code (Unmarshal_MethodCallError (JObject [(''code'', JInt 0), (''message'', JString [])])
        MethodCallError_zero) = 0
   \<and> Message (Unmarshal_MethodCallError (JObject [(''code'', JInt 0), (''message'', JString [])])
        MethodCallError_zero) = []
   \<and> fst (MultiCall ([empty_failure], None)) ! 0 =
        \<lparr>Result = None, Error = Some MethodCallError_zero\<rparr>
   \<and> failure (fst (MultiCall ([empty_failure], None)) ! 0) = None"
proof -
  have a: "(0::nat) < length [empty_failure]" by simp
  have b: "[empty_failure] ! 0 = JObject [(''code'', JInt 0), (''message'', JString [])]"
    by (simp add: empty_failure_def)
  have z: "Unmarshal_MethodCallError (JObject [(''code'', JInt 0), (''message'', JString [])])
        MethodCallError_zero = MethodCallError_zero"
    using decode_empty_failure by (simp add: empty_failure_def)
  have c: "Code (Unmarshal_MethodCallError
        (JObject [(''code'', JInt 0), (''message'', JString [])]) MethodCallError_zero) = 0"
    by (simp only: z) (simp add: MethodCallError_zero_def)
  have d: "Message (Unmarshal_MethodCallError
        (JObject [(''code'', JInt 0), (''message'', JString [])]) MethodCallError_zero) = []"
    by (simp only: z) (simp add: MethodCallError_zero_def)
  show ?thesis
    using a b c d MultiCall_empty_failure_is_success [OF a b c d, of None]
    by (simp add: failure_def)
qed

end
